theory Spec2Isabelle
  imports Main "HOL-Library.Sublist" "HOL-Library.Word"
begin

section \<open>The connection layer of the w3af REST API client\<close>

text \<open>
  A shallow embedding of \<^verbatim>\<open>w3af_api_client/connection.py\<close>: the class
  \<^verbatim>\<open>Connection\<close> with \<^verbatim>\<open>send_request\<close>, \<^verbatim>\<open>get_version\<close>,
  \<^verbatim>\<open>can_access_api\<close>, \<^verbatim>\<open>get_scans\<close> and its constructor.
  Exceptions are values (\<open>Inl\<close> of a sum), the remote service and the logger are explicit
  state, and the functions of \<^verbatim>\<open>requests\<close>, \<^verbatim>\<open>json\<close> and
  \<^verbatim>\<open>urljoin\<close> are parameters collected in one record.
\<close>

subsection \<open>Python values\<close>

text \<open>
  What \<^verbatim>\<open>response.json()\<close> returns and what \<^verbatim>\<open>json.dumps\<close> takes: \<^verbatim>\<open>None\<close>,
  \<^verbatim>\<open>bool\<close>, \<^verbatim>\<open>int\<close>, \<^verbatim>\<open>float\<close> (its 64 bits; no operation here looks into
  them), \<^verbatim>\<open>str\<close>, \<^verbatim>\<open>list\<close> and \<^verbatim>\<open>dict\<close> with string keys, in insertion order.
\<close>

datatype json =
    JNull
  | JBool bool
  | JInt int
  | JFloat "64 word"
  | JStr string
  | JList "json list"
  | JDict "(string \<times> json) list"

subsection \<open>Exceptions\<close>

text \<open>
  The four classes of \<^verbatim>\<open>utils/exceptions.py\<close>, the built-in classes the
  interpreter raises in this module, and \<open>RequestException\<close> for whatever the
  \<^verbatim>\<open>requests\<close> transport raises (DNS failure, refused connection, timeout).
  \<open>ValueError\<close> stands for the class and its subclasses, the decoding errors of
  \<^verbatim>\<open>json\<close> among them: all that \<^verbatim>\<open>except ValueError\<close> catches. \<open>RecursionError\<close> is
  what a parser raises on a body nested too deeply; it is no \<^verbatim>\<open>ValueError\<close>.
  An exception is its class and its single constructor argument.
\<close>

datatype exc_class =
    APIException
  | ForbiddenException
  | NotFoundException
  | BadRequestException
  | ValueError
  | AttributeError
  | TypeError
  | KeyError
  | RecursionError
  | RequestException

datatype exc = Exc exc_class json

fun klass :: "exc \<Rightarrow> exc_class" where
  "klass (Exc c a) = c"


definition API_EXCEPTIONS :: "int \<rightharpoonup> exc_class" where
  "API_EXCEPTIONS = map_of [(400, BadRequestException),
                            (403, ForbiddenException),
                            (404, NotFoundException)]"

subsection \<open>Requests, responses and the session\<close>

datatype http_verb = HTTP_GET | HTTP_DELETE | HTTP_POST

record request =
  verb :: http_verb
  url :: string
  data :: "string option"
  timeout_of :: int
  headers_of :: "string \<rightharpoonup> string"
  verify_of :: bool

record response =
  status_code :: int
  content :: string

record session =
  verify :: bool
  headers :: "string \<rightharpoonup> string"

record Connection =
  api_url :: string
  session :: "session option"
  timeout :: int

text \<open>
  Modelled from the spec: the resource handle of \<^verbatim>\<open>scan.py\<close>, which is not among
  the sources: "an identifier plus last-known status", holding "only a back-reference to
  the Session".
\<close>

record Scan =
  conn :: Connection
  scan_id :: json
  status :: json

subsection \<open>The environment\<close>

text \<open>
  The constants imported from the package (\<^verbatim>\<open>ISSUE_URL\<close>, \<^verbatim>\<open>__VERSION__\<close>) and
  the library functions the module calls. \<open>response_json\<close> is \<^verbatim>\<open>response.json()\<close> on
  the raw body: the parsed value, or the exception the parser raised. \<open>PY3\<close> is
  \<^verbatim>\<open>six.PY3\<close>, the major version of the interpreter; \<open>py_repr\<close> is \<^verbatim>\<open>repr\<close>;
  \<open>http_send\<close> is the transport under \<^verbatim>\<open>requests.Session\<close>, acting on the remote
  state \<open>'w\<close>. \<^verbatim>\<open>urljoin\<close> is taken as total on strings.
\<close>

record 'w env =
  ISSUE_URL :: string
  VERSION :: string
  urljoin :: "string \<Rightarrow> string \<Rightarrow> string"
  json_dumps :: "json \<Rightarrow> string"
  json_dumps_indent4 :: "json \<Rightarrow> string"
  response_json :: "string \<Rightarrow> exc + json"
  PY3 :: bool
  py_repr :: "json \<Rightarrow> string"
  default_headers :: "string \<rightharpoonup> string"
  http_send :: "request \<Rightarrow> 'w \<Rightarrow> (exc + response) \<times> 'w"

subsection \<open>State: the remote service, the wire and the loggers\<close>

datatype log_level = DEBUG | CRITICAL

record 'w state =
  remote :: 'w
  wire :: "request list"
  api_logger_level :: log_level
  api_logger_handlers :: "log_level list"
  requests_log_level :: log_level
  http_debuglevel :: nat
  emitted :: "string list"

subsection \<open>Built-in operations of Python on these values\<close>

fun nat_str :: "nat \<Rightarrow> string" where
  "nat_str n = (if n < 10 then [char_of (48 + n)]
                else nat_str (n div 10) @ [char_of (48 + n mod 10)])"

declare nat_str.simps [simp del]

definition int_str :: "int \<Rightarrow> string" where
  "int_str i = (if i < 0 then ''-'' @ nat_str (nat (- i)) else nat_str (nat i))"

definition quoted :: "string \<Rightarrow> string" where
  "quoted s = [CHR 0x27] @ s @ [CHR 0x27]"

fun type_name :: "json \<Rightarrow> string" where
  "type_name JNull = ''NoneType''"
| "type_name (JBool b) = ''bool''"
| "type_name (JInt i) = ''int''"
| "type_name (JFloat f) = ''float''"
| "type_name (JStr s) = ''str''"
| "type_name (JList xs) = ''list''"
| "type_name (JDict kvs) = ''dict''"



text \<open>\<^verbatim>\<open>v.get(k, None)\<close>: only a dict has the method.\<close>

definition py_get :: "json \<Rightarrow> string \<Rightarrow> exc + json" where
  \<open>py_get v k =
     (case v of
        JDict kvs \<Rightarrow> (case map_of kvs k of None \<Rightarrow> Inr JNull | Some x \<Rightarrow> Inr x)
      | _ \<Rightarrow> Inl (Exc AttributeError
                 (JStr (quoted (type_name v) @ '' object has no attribute '' @
                        quoted ''get''))))\<close>


text \<open>
  \<^verbatim>\<open>for x in v\<close>: the elements of a list, the keys of a dict, the characters of a
  string.
\<close>

definition py_iter :: "json \<Rightarrow> exc + json list" where
  \<open>py_iter v =
     (case v of
        JList xs \<Rightarrow> Inr xs
      | JDict kvs \<Rightarrow> Inr (map (\<lambda>kv. JStr (fst kv)) kvs)
      | JStr s \<Rightarrow> Inr (map (\<lambda>c. JStr [c]) s)
      | _ \<Rightarrow> Inl (Exc TypeError
                 (JStr (quoted (type_name v) @ '' object is not iterable''))))\<close>

text \<open>\<^verbatim>\<open>v[k]\<close> for a string \<open>k\<close>.\<close>

definition py_getitem :: "json \<Rightarrow> string \<Rightarrow> exc + json" where
  \<open>py_getitem v k =
     (case v of
        JDict kvs \<Rightarrow> (case map_of kvs k of None \<Rightarrow> Inl (Exc KeyError (JStr k))
                                        | Some x \<Rightarrow> Inr x)
      | JList xs \<Rightarrow> Inl (Exc TypeError
                          (JStr ''list indices must be integers or slices, not str''))
      | JStr s \<Rightarrow> Inl (Exc TypeError (JStr ''string indices must be integers''))
      | _ \<Rightarrow> Inl (Exc TypeError
                 (JStr (quoted (type_name v) @ '' object is not subscriptable''))))\<close>

text \<open>
  What \<^verbatim>\<open>%s\<close> makes of \<^verbatim>\<open>response.content[:20]\<close>. On Python 2 the content is a
  \<^verbatim>\<open>str\<close> and is printed as it is. On Python 3 it is \<^verbatim>\<open>bytes\<close>, printed as their
  literal: \<^verbatim>\<open>b\<close>, a quote (the double quote when the bytes hold a single quote and no
  double quote), each byte, the quote again. Backslash and the quote get a backslash,
  tab, newline and carriage return their letter, and a byte below 0x20 or from 0x7f
  on is written in two hexadecimal digits.
\<close>

definition hexdigits :: string where
  "hexdigits = ''0123456789abcdef''"

definition repr_byte :: "char \<Rightarrow> char \<Rightarrow> string" where
  "repr_byte quote c =
     (if c = quote \<or> c = CHR 0x5C then [CHR 0x5C, c]
      else if c = CHR 0x09 then [CHR 0x5C, CHR ''t'']
      else if c = CHR 0x0A then [CHR 0x5C, CHR ''n'']
      else if c = CHR 0x0D then [CHR 0x5C, CHR ''r'']
      else if (of_char c :: nat) < 0x20 \<or> (of_char c :: nat) \<ge> 0x7F then
        [CHR 0x5C, CHR ''x'', hexdigits ! (of_char c div 16), hexdigits ! (of_char c mod 16)]
      else [c])"

definition bytes_repr :: "string \<Rightarrow> string" where
  "bytes_repr bs =
     (let quote = (if CHR 0x27 \<in> set bs \<and> CHR 0x22 \<notin> set bs then CHR 0x22 else CHR 0x27)
      in ''b'' @ [quote] @ concat (map (repr_byte quote) bs) @ [quote])"

definition bytes_str :: "'w env \<Rightarrow> string \<Rightarrow> string" where
  "bytes_str E bs = (if PY3 E then bytes_repr bs else bs)"


subsection \<open>Logging\<close>

text \<open>
  \<^verbatim>\<open>api_logger.debug(msg)\<close>: dropped unless the logger's level is \<^verbatim>\<open>DEBUG\<close>, then
  written once by each handler whose own level is \<^verbatim>\<open>DEBUG\<close>.
\<close>

definition api_logger_debug :: "string \<Rightarrow> 'w state \<Rightarrow> 'w state" where
  "api_logger_debug msg s =
     (if api_logger_level s = DEBUG
      then s\<lparr>emitted := emitted s @ map (\<lambda>h. msg) (filter (\<lambda>h. h = DEBUG) (api_logger_handlers s))\<rparr>
      else s)"


subsection \<open>The session\<close>

definition configure_requests :: "'w env \<Rightarrow> Connection \<Rightarrow> bool \<Rightarrow> Connection" where
  "configure_requests E self verify' =
     self\<lparr>session := Some \<lparr>verify = verify',
                           headers = (default_headers E)
                             (''Content-Type'' \<mapsto> ''application/json'',
                              ''Accept'' \<mapsto> ''application/json'',
                              ''User-Agent'' \<mapsto> ''REST API Client '' @ VERSION E)\<rparr>\<rparr>"

text \<open>
  One call of \<^verbatim>\<open>self.session.get\<close>, \<^verbatim>\<open>.delete\<close> or \<^verbatim>\<open>.post\<close>: the request goes on
  the wire, the transport answers with a response or raises.
\<close>

fun method_name :: "http_verb \<Rightarrow> string" where
  "method_name HTTP_GET = ''get''"
| "method_name HTTP_DELETE = ''delete''"
| "method_name HTTP_POST = ''post''"

definition session_call ::
  "'w env \<Rightarrow> Connection \<Rightarrow> http_verb \<Rightarrow> string \<Rightarrow> string option \<Rightarrow> 'w state
     \<Rightarrow> (exc + response) \<times> 'w state" where
  \<open>session_call E self v full_url body s =
     (case session self of
        None \<Rightarrow> (Inl (Exc AttributeError
                   (JStr (quoted (type_name JNull) @ '' object has no attribute '' @
                          quoted (method_name v)))), s)
      | Some sess \<Rightarrow>
          (let rq = \<lparr>verb = v, url = full_url, data = body, timeout_of = timeout self,
                     headers_of = headers sess, verify_of = verify sess\<rparr>;
               (r, w) = http_send E rq (remote s)
           in (r, s\<lparr>remote := w, wire := wire s @ [rq]\<rparr>)))\<close>

subsection \<open>The dispatcher\<close>

definition not_json_msg :: "'w env \<Rightarrow> response \<Rightarrow> string" where
  \<open>not_json_msg E r =
     ''REST API service did not return JSON, if this issue'' @
     '' persists please create an issue in the w3af framework'' @
     '' repository at '' @ ISSUE_URL E @
     ''. The response body starts with: "'' @ bytes_str E (take 20 (content r)) @ ''"''\<close>

definition no_message_msg :: "'w env \<Rightarrow> response \<Rightarrow> json \<Rightarrow> string" where
  \<open>no_message_msg E r json_data =
     ''REST API service did not return the expected "message"'' @
     '' attribute for the '' @ int_str (status_code r) @ '' response. Please create a new'' @
     '' issue in the w3af framework repository at '' @ ISSUE_URL E @ '' with'' @
     '' this JSON data:'' @ [CHR 0x0A, CHR 0x0A] @ json_dumps_indent4 E json_data\<close>

definition wire_msg :: "'w env \<Rightarrow> response \<Rightarrow> json \<Rightarrow> string" where
  "wire_msg E r json_data =
     ''Received '' @ int_str (status_code r) @ '' HTTP response from the wire:'' @
     [CHR 0x0A] @ json_dumps_indent4 E json_data"

text \<open>
  The first part of \<^verbatim>\<open>send_request\<close>: the method decides which call of the session
  is made, and only \<^verbatim>\<open>POST\<close> serialises and sends \<^verbatim>\<open>json_data\<close>. Any other value
  raises \<^verbatim>\<open>ValueError\<close>.
\<close>

definition dispatch ::
  "'w env \<Rightarrow> Connection \<Rightarrow> string \<Rightarrow> json \<Rightarrow> string \<Rightarrow> 'w state
     \<Rightarrow> (exc + response) \<times> 'w state" where
  \<open>dispatch E self full_url json_data method s =
     (if method = ''GET'' then session_call E self HTTP_GET full_url None s
      else if method = ''DELETE'' then session_call E self HTTP_DELETE full_url None s
      else if method = ''POST'' then
        (let data' = json_dumps E json_data
         in session_call E self HTTP_POST full_url (Some data') s)
      else (Inl (Exc ValueError (JStr (''Invalid HTTP method: "'' @ method @ ''"''))), s))\<close>

text \<open>
  The second part: parse the body, log it, and classify the status code against
  \<open>API_EXCEPTIONS\<close>. Of what \<^verbatim>\<open>response.json()\<close> raises, only a \<^verbatim>\<open>ValueError\<close> is
  caught and turned into \<^verbatim>\<open>APIException\<close>; anything else leaves the function.
\<close>

definition handle_response ::
  "'w env \<Rightarrow> response \<Rightarrow> 'w state \<Rightarrow> (exc + int \<times> json) \<times> 'w state" where
  "handle_response E r s =
     (case response_json E (content r) of
        Inl e \<Rightarrow>
          if klass e = ValueError then (Inl (Exc APIException (JStr (not_json_msg E r))), s)
          else (Inl e, s)
      | Inr json_data \<Rightarrow>
          (let s' = api_logger_debug (wire_msg E r json_data) s
           in case API_EXCEPTIONS (status_code r) of
                None \<Rightarrow> (Inr (status_code r, json_data), s')
              | Some exception_klass \<Rightarrow>
                  (case py_get json_data ''message'' of
                     Inl e \<Rightarrow> (Inl e, s')
                   | Inr error \<Rightarrow>
                       if error \<noteq> JNull then (Inl (Exc exception_klass error), s')
                       else (Inl (Exc APIException
                                   (JStr (no_message_msg E r json_data))), s'))))"

definition send_request ::
  "'w env \<Rightarrow> Connection \<Rightarrow> string \<Rightarrow> json \<Rightarrow> string \<Rightarrow> 'w state
     \<Rightarrow> (exc + int \<times> json) \<times> 'w state" where
  "send_request E self path json_data method s =
     (let full_url = urljoin E (api_url self) path
      in case dispatch E self full_url json_data method s of
           (Inl e, s') \<Rightarrow> (Inl e, s')
         | (Inr r, s') \<Rightarrow> handle_response E r s')"

subsection \<open>The version check and the constructor\<close>




subsection \<open>Listing the scans\<close>

text \<open>The loop of \<^verbatim>\<open>get_scans\<close>: one handle per element, stopping at the first error.\<close>

fun scan_instances :: "Connection \<Rightarrow> json list \<Rightarrow> exc + Scan list" where
  "scan_instances self [] = Inr []"
| "scan_instances self (scan_json # rest) =
     (case py_getitem scan_json ''id'' of
        Inl e \<Rightarrow> Inl e
      | Inr scan_id' \<Rightarrow>
          (case py_getitem scan_json ''status'' of
             Inl e \<Rightarrow> Inl e
           | Inr scan_status \<Rightarrow>
               (case scan_instances self rest of
                  Inl e \<Rightarrow> Inl e
                | Inr scans \<Rightarrow>
                    Inr (\<lparr>conn = self, scan_id = scan_id', status = scan_status\<rparr> # scans))))"

definition get_scans :: "'w env \<Rightarrow> Connection \<Rightarrow> 'w state \<Rightarrow> (exc + Scan list) \<times> 'w state" where
  \<open>get_scans E self s =
     (case send_request E self ''/scans/'' JNull ''GET'' s of
        (Inl e, s') \<Rightarrow> (Inl e, s')
      | (Inr (code, data'), s') \<Rightarrow>
          if code \<noteq> 200 then
            (Inl (Exc APIException
                   (JStr (''Failed to retrieve scans. Unexpected code '' @ int_str code))), s')
          else
            (case py_get data' ''items'' of
               Inl e \<Rightarrow> (Inl e, s')
             | Inr scans \<Rightarrow>
                 if scans = JNull then
                   (Inl (Exc APIException
                          (JStr ''Failed to retrieve scans, no "items" in JSON.'')), s')
                 else
                   (case py_iter scans of
                      Inl e \<Rightarrow> (Inl e, s')
                    | Inr xs \<Rightarrow> (scan_instances self xs, s'))))\<close>


subsection \<open>Observations and a stub service\<close>

text \<open>The class of the exception a call raised, \<open>None\<close> when it returned.\<close>

definition raised :: "(exc + 'a) \<times> 's \<Rightarrow> exc_class option" where
  "raised out = (case fst out of Inl e \<Rightarrow> Some (klass e) | Inr v \<Rightarrow> None)"

text \<open>The requests a call put on the wire, given the state before and after it.\<close>

definition sent :: "'w state \<Rightarrow> 'w state \<Rightarrow> request list" where
  "sent s s' = drop (length (wire s)) (wire s')"

text \<open>
  A stub service for the concrete instances below: it answers every request with the same
  outcome and counts the requests it served. Its \<open>response_json\<close> knows the bodies of the
  instances and takes any other body as not being JSON; the other library functions are
  stand-ins.
\<close>

definition stub_bodies :: "(string \<times> json) list" where
  \<open>stub_bodies =
     [(''{"version": "1.7.2"}'', JDict [(''version'', JStr ''1.7.2'')]),
      (''{"message": "Scan not found"}'', JDict [(''message'', JStr ''Scan not found'')]),
      (''{"message": null}'', JDict [(''message'', JNull)]),
      (''{"items": [{"id": 1, "status": "Running"}]}'',
         JDict [(''items'', JList [JDict [(''id'', JInt 1), (''status'', JStr ''Running'')]])]),
      (''{}'', JDict []),
      (''[]'', JList []),
      (''7'', JInt 7)]\<close>

definition stub_json :: "string \<Rightarrow> exc + json" where
  "stub_json body =
     (case map_of stub_bodies body of
        None \<Rightarrow> Inl (Exc ValueError (JStr ''Expecting value''))
      | Some v \<Rightarrow> Inr v)"

definition stub_env :: "exc + response \<Rightarrow> nat env" where
  "stub_env answer =
     \<lparr>ISSUE_URL = ''https://github.com/andresriancho/w3af/issues/new'',
      VERSION = ''3.0.1'',
      urljoin = (\<lambda>base path. base @ path),
      json_dumps = (\<lambda>v. ''null''),
      json_dumps_indent4 = (\<lambda>v. ''{}''),
      response_json = stub_json,
      PY3 = False,
      py_repr = (\<lambda>v. ''None''),
      default_headers = Map.empty,
      http_send = (\<lambda>rq w. (answer, Suc w))\<rparr>"

definition stub_conn :: Connection where
  "stub_conn =
     \<lparr>api_url = ''http://127.0.0.1:5000'',
      session = Some \<lparr>verify = True, headers = Map.empty\<rparr>,
      timeout = 5\<rparr>"

definition stub_state :: "nat state" where
  "stub_state =
     \<lparr>remote = 0, wire = [], api_logger_level = CRITICAL, api_logger_handlers = [],
      requests_log_level = CRITICAL, http_debuglevel = 0, emitted = []\<rparr>"

section \<open>Properties\<close>

subsection \<open>Auxiliary facts\<close>

lemma API_EXCEPTIONS_simps:
  "API_EXCEPTIONS 400 = Some BadRequestException"
  "API_EXCEPTIONS 403 = Some ForbiddenException"
  "API_EXCEPTIONS 404 = Some NotFoundException"
  "c \<notin> {400, 403, 404} \<Longrightarrow> API_EXCEPTIONS c = None"
  by (simp_all add: API_EXCEPTIONS_def)

lemma API_EXCEPTIONS_None_iff: "API_EXCEPTIONS c = None \<longleftrightarrow> c \<notin> {400, 403, 404}"
  by (simp add: API_EXCEPTIONS_def)

lemma api_logger_debug_wire [simp]:
  "wire (api_logger_debug msg s) = wire s" "remote (api_logger_debug msg s) = remote s"
  by (simp_all add: api_logger_debug_def)

lemma send_request_after_response:
  assumes "dispatch E self (urljoin E (api_url self) path) json_data method s = (Inr r, s1)"
  shows "send_request E self path json_data method s = handle_response E r s1"
  using assms by (simp add: send_request_def)

lemma send_request_after_raise:
  assumes "dispatch E self (urljoin E (api_url self) path) json_data method s = (Inl e, s1)"
  shows "send_request E self path json_data method s = (Inl e, s1)"
  using assms by (simp add: send_request_def)

lemma session_call_sent:
  assumes "session_call E self v u b s = (out, s')"
  shows "\<forall>rq \<in> set (sent s s'). verb rq = v \<and> url rq = u \<and> data rq = b"
  using assms
  by (auto simp: session_call_def sent_def Let_def split: option.splits prod.splits)

lemma handle_response_wire [simp]:
  "wire (snd (handle_response E r s)) = wire s"
  "remote (snd (handle_response E r s)) = remote s"
  by (auto simp: handle_response_def Let_def split: option.splits sum.splits)


lemma sublist_no_message_msg:
  "sublist (int_str (status_code r)) (no_message_msg E r body)"
  "sublist (json_dumps_indent4 E body) (no_message_msg E r body)"
  "sublist (ISSUE_URL E) (no_message_msg E r body)"
proof -
  let ?a = \<open>''REST API service did not return the expected "message"'' @ '' attribute for the ''\<close>
  let ?b = "'' response. Please create a new'' @ '' issue in the w3af framework repository at ''"
  let ?c = "'' with'' @ '' this JSON data:'' @ [CHR 0x0A, CHR 0x0A]"
  have m: "no_message_msg E r body =
      ?a @ int_str (status_code r) @ ?b @ ISSUE_URL E @ ?c @ json_dumps_indent4 E body"
    by (simp add: no_message_msg_def)
  show "sublist (int_str (status_code r)) (no_message_msg E r body)"
    unfolding m by (rule sublist_appendI)
  have "sublist (ISSUE_URL E) ((?a @ int_str (status_code r) @ ?b) @ ISSUE_URL E @ (?c @ json_dumps_indent4 E body))"
    by (rule sublist_appendI)
  then show "sublist (ISSUE_URL E) (no_message_msg E r body)"
    unfolding m by (simp only: append_assoc)
  have "sublist (json_dumps_indent4 E body) ((?a @ int_str (status_code r) @ ?b @ ISSUE_URL E @ ?c) @ json_dumps_indent4 E body @ [])"
    by (rule sublist_appendI)
  then show "sublist (json_dumps_indent4 E body) (no_message_msg E r body)"
    unfolding m by (simp only: append_assoc append_Nil2)
qed


lemma handle_response_mapped_dict:
  assumes "status_code r \<in> {400, 403, 404}"
    and "response_json E (content r) = Inr (JDict kvs)"
  shows "fst (handle_response E r s) =
     (case map_of kvs ''message'' of
        None \<Rightarrow> Inl (Exc APIException (JStr (no_message_msg E r (JDict kvs))))
      | Some v \<Rightarrow>
          if v \<noteq> JNull
          then Inl (Exc (if status_code r = 400 then BadRequestException
                         else if status_code r = 403 then ForbiddenException
                         else NotFoundException) v)
          else Inl (Exc APIException (JStr (no_message_msg E r (JDict kvs)))))"
  using assms
  by (auto simp: handle_response_def API_EXCEPTIONS_simps py_get_def Let_def
      split: option.splits)

lemma api_url_configure_requests [simp]:
  "api_url (configure_requests E self vf) = api_url self"
  by (simp add: configure_requests_def)


text \<open>
  Unfolding sets for running the model on the stub service.
\<close>

lemmas stub_defs = stub_env_def stub_conn_def stub_state_def stub_json_def stub_bodies_def


lemmas run_defs = send_request_def dispatch_def session_call_def handle_response_def
  api_logger_debug_def API_EXCEPTIONS_def py_get_def raised_def Let_def


subsection \<open>Unmapped status codes are passed through\<close>



subsection \<open>Mapped status codes with a message\<close>




subsection \<open>A null message counts as no message\<close>



subsection \<open>Mapped status codes without a message\<close>

text \<open>
  For a body that is a JSON object without the key, \<^verbatim>\<open>send_request\<close> raises
  \<^verbatim>\<open>APIException\<close>, and its text holds the status code, the issue URL and the dump
  of the body.
\<close>

lemma send_request_missing_message_object:
  assumes "dispatch E self (urljoin E (api_url self) path) json_data method s = (Inr r, s1)"
    and "status_code r \<in> {400, 403, 404}"
    and "response_json E (content r) = Inr (JDict kvs)"
    and "map_of kvs ''message'' = None"
  shows "fst (send_request E self path json_data method s) =
           Inl (Exc APIException (JStr (no_message_msg E r (JDict kvs))))"
  using assms
  by (simp add: send_request_after_response handle_response_mapped_dict)

text \<open>
  A body that parses to anything but an object has no \<^verbatim>\<open>get\<close>: line 141 raises
  \<^verbatim>\<open>AttributeError\<close> before the message is looked at.
\<close>

lemma send_request_mapped_not_object:
  assumes "dispatch E self (urljoin E (api_url self) path) json_data method s = (Inr r, s1)"
    and "status_code r \<in> {400, 403, 404}"
    and "response_json E (content r) = Inr body"
    and "\<forall>kvs. body \<noteq> JDict kvs"
  shows "raised (send_request E self path json_data method s) = Some AttributeError"
  using assms
  by (cases body)
     (auto simp: send_request_after_response handle_response_def API_EXCEPTIONS_simps
        py_get_def Let_def raised_def)

text \<open>
  C5 at status 404 with the body \<^verbatim>\<open>[]\<close>, valid JSON without a \<^verbatim>\<open>message\<close> field:
  the claim asks for \<^verbatim>\<open>APIException\<close>, the code raises \<^verbatim>\<open>AttributeError\<close>.
\<close>

theorem send_request_array_body_attribute_error:
  "raised (send_request (stub_env (Inr \<lparr>status_code = 404, content = ''[]''\<rparr>))
       stub_conn ''/scans/9'' JNull ''GET'' stub_state) = Some AttributeError"
  by (simp add: run_defs stub_defs)

subsection \<open>Bodies that are not JSON\<close>







text \<open>
  An exception of the parser that is no \<^verbatim>\<open>ValueError\<close> is not caught by line 127 and
  leaves \<^verbatim>\<open>send_request\<close> as it is.
\<close>

lemma send_request_parser_exception_escapes:
  assumes "dispatch E self (urljoin E (api_url self) path) json_data method s = (Inr r, s1)"
    and "response_json E (content r) = Inl e"
    and "klass e \<noteq> ValueError"
  shows "send_request E self path json_data method s = (Inl e, s1)"
  using assms by (simp add: send_request_after_response handle_response_def)

subsection \<open>Invalid methods\<close>

text \<open>
  C7. For every method other than \<^verbatim>\<open>GET\<close>, \<^verbatim>\<open>POST\<close> and \<^verbatim>\<open>DELETE\<close>,
  \<^verbatim>\<open>send_request\<close> raises \<^verbatim>\<open>ValueError\<close> with the invalid-method text and leaves
  the state as it was: nothing was put on the wire and the remote service was not
  touched.
\<close>

theorem send_request_rejects_invalid_method:
  assumes "method \<notin> {''GET'', ''POST'', ''DELETE''}"
  shows \<open>send_request E self path json_data method s =
           (Inl (Exc ValueError (JStr (''Invalid HTTP method: "'' @ method @ ''"''))), s)
         \<and> sent s (snd (send_request E self path json_data method s)) = []\<close>
  using assms by (simp add: send_request_def dispatch_def sent_def)

theorem send_request_rejects_invalid_method_witness:
  \<open>send_request (stub_env (Inr \<lparr>status_code = 200, content = ''{}''\<rparr>))
       stub_conn ''/scans/'' JNull ''PUT'' stub_state =
     (Inl (Exc ValueError (JStr ''Invalid HTTP method: "PUT"'')), stub_state)
   \<and> sent stub_state (snd (send_request (stub_env (Inr \<lparr>status_code = 200, content = ''{}''\<rparr>))
       stub_conn ''/scans/'' JNull ''PUT'' stub_state)) = []\<close>
  using send_request_rejects_invalid_method
    [of "''PUT''" "stub_env (Inr \<lparr>status_code = 200, content = ''{}''\<rparr>)" stub_conn
        "''/scans/''" JNull stub_state]
  by (simp add: sent_def)

subsection \<open>The body argument under GET and DELETE\<close>

lemma send_request_sent:
  "set (map data (sent s (snd (send_request E self path json_data method s))))
     \<subseteq> (if method = ''POST'' then {Some (json_dumps E json_data)} else {None})"
proof -
  obtain out s1 where d: "dispatch E self (urljoin E (api_url self) path) json_data method s = (out, s1)"
    by (cases "dispatch E self (urljoin E (api_url self) path) json_data method s")
  have w: "wire (snd (send_request E self path json_data method s)) = wire s1"
    using d by (cases out) (simp_all add: send_request_def)
  have "set (map data (sent s s1)) \<subseteq> (if method = ''POST'' then {Some (json_dumps E json_data)} else {None})"
    using d session_call_sent
    by (fastforce simp: dispatch_def sent_def Let_def split: if_splits)
  then show ?thesis using w by (simp add: sent_def)
qed

text \<open>
  C10. Under \<^verbatim>\<open>GET\<close> and \<^verbatim>\<open>DELETE\<close> the \<^verbatim>\<open>json_data\<close> argument has no effect:
  the call gives the same result and the same state as the call without it, and every
  request it put on the wire carries no body.
\<close>

theorem send_request_ignores_body_of_get_and_delete:
  assumes "method \<in> {''GET'', ''DELETE''}"
  shows "send_request E self path json_data method s = send_request E self path JNull method s
         \<and> set (map data (sent s (snd (send_request E self path json_data method s)))) \<subseteq> {None}"
proof -
  have "dispatch E self u json_data method s = dispatch E self u JNull method s" for u
    using assms by (auto simp: dispatch_def)
  then have "send_request E self path json_data method s = send_request E self path JNull method s"
    by (simp add: send_request_def)
  moreover have "set (map data (sent s (snd (send_request E self path json_data method s)))) \<subseteq> {None}"
    using send_request_sent [of s E self path json_data "method"] assms by auto
  ultimately show ?thesis by simp
qed

theorem send_request_ignores_body_of_get_and_delete_witness:
  "send_request (stub_env (Inr \<lparr>status_code = 200, content = ''{}''\<rparr>))
       stub_conn ''/scans/0'' (JDict [(''scan_profile'', JStr ''x'')]) ''DELETE'' stub_state
     = send_request (stub_env (Inr \<lparr>status_code = 200, content = ''{}''\<rparr>))
       stub_conn ''/scans/0'' JNull ''DELETE'' stub_state
   \<and> set (map data (sent stub_state (snd (send_request (stub_env (Inr \<lparr>status_code = 200, content = ''{}''\<rparr>))
       stub_conn ''/scans/0'' (JDict [(''scan_profile'', JStr ''x'')]) ''DELETE'' stub_state)))) \<subseteq> {None}"
proof -
  have h: "''DELETE'' \<in> {''GET'', ''DELETE''}" by simp
  show ?thesis by (rule send_request_ignores_body_of_get_and_delete [OF h])
qed

subsection \<open>Exceptions of the transport\<close>





subsection \<open>Construction of the session\<close>






subsection \<open>Listing the scans\<close>

text \<open>
  With status 200 and an object whose \<^verbatim>\<open>items\<close> is a list of descriptors that have
  \<^verbatim>\<open>id\<close> and \<^verbatim>\<open>status\<close>, \<^verbatim>\<open>get_scans\<close> returns one handle per descriptor, in
  order; any other status code, and an object without \<^verbatim>\<open>items\<close>, raise
  \<^verbatim>\<open>APIException\<close>.
\<close>

lemma scan_instances_descriptors:
  assumes "\<forall>d \<in> set ds. py_getitem d ''id'' = Inr (ident d) \<and>
                         py_getitem d ''status'' = Inr (stat d)"
  shows "scan_instances self ds =
           Inr (map (\<lambda>d. \<lparr>conn = self, scan_id = ident d, status = stat d\<rparr>) ds)"
  using assms by (induction ds) simp_all

lemma get_scans_handles:
  assumes "fst (send_request E self ''/scans/'' JNull ''GET'' s) = Inr (200, JDict kvs)"
    and "map_of kvs ''items'' = Some (JList ds)"
    and "\<forall>d \<in> set ds. py_getitem d ''id'' = Inr (ident d) \<and>
                         py_getitem d ''status'' = Inr (stat d)"
  shows "fst (get_scans E self s) =
           Inr (map (\<lambda>d. \<lparr>conn = self, scan_id = ident d, status = stat d\<rparr>) ds)"
  using assms(1,2) scan_instances_descriptors [OF assms(3), of self]
  by (cases "send_request E self ''/scans/'' JNull ''GET'' s")
     (simp add: get_scans_def py_get_def py_iter_def)

lemma get_scans_other_status:
  assumes "fst (send_request E self ''/scans/'' JNull ''GET'' s) = Inr (code, body)"
    and "code \<noteq> 200"
  shows "raised (get_scans E self s) = Some APIException"
  using assms
  by (cases "send_request E self ''/scans/'' JNull ''GET'' s")
     (simp add: get_scans_def raised_def)

lemma get_scans_object_without_items:
  assumes "fst (send_request E self ''/scans/'' JNull ''GET'' s) = Inr (200, JDict kvs)"
    and "map_of kvs ''items'' = None"
  shows "raised (get_scans E self s) = Some APIException"
  using assms
  by (cases "send_request E self ''/scans/'' JNull ''GET'' s")
     (simp add: get_scans_def raised_def py_get_def)

text \<open>
  C8 at status 200 with the body \<^verbatim>\<open>[]\<close>, a body without \<^verbatim>\<open>items\<close>: the dispatcher
  returns it, the claim asks for \<^verbatim>\<open>APIException\<close>, and line 167 raises
  \<^verbatim>\<open>AttributeError\<close>.
\<close>

theorem get_scans_array_body_attribute_error:
  "fst (send_request (stub_env (Inr \<lparr>status_code = 200, content = ''[]''\<rparr>))
          stub_conn ''/scans/'' JNull ''GET'' stub_state) = Inr (200, JList [])
   \<and> raised (get_scans (stub_env (Inr \<lparr>status_code = 200, content = ''[]''\<rparr>))
          stub_conn stub_state) = Some AttributeError"
  by (simp add: get_scans_def run_defs stub_defs)

end
